theory Spec2Isabelle
  imports Complex_Main "HOL-Library.Sublist" "HOL-Library.AList"
begin

section \<open>JavaScript values\<close>

text \<open>
  Both services read their inputs with \<^verbatim>\<open>express.json()\<close>, so every value a handler
  sees is a parsed JSON value, or \<^verbatim>\<open>undefined\<close> for a field that is not there. A finite
  JavaScript number is a rational; the handlers only test numbers for truthiness and
  strict equality. An object is the list of its members, the first binding of a key being
  its value.
\<close>

datatype jsval =
    JUndefined
  | JNull
  | JBool bool
  | JNum rat
  | JStr string
  | JArr "jsval list"
  | JObj "(string \<times> jsval) list"

text \<open>What a handler can throw: a TypeError of the language, or the error of a rejected
  \<^verbatim>\<open>axios\<close> request.\<close>

datatype error = TypeError | AxiosError

text \<open>\<^verbatim>\<open>!v\<close> is \<open>\<not> truthy v\<close>: arrays and objects are truthy, also the empty ones.\<close>

fun truthy :: "jsval \<Rightarrow> bool" where
  "truthy JUndefined = False"
| "truthy JNull = False"
| "truthy (JBool b) = b"
| "truthy (JNum n) = (n \<noteq> 0)"
| "truthy (JStr s) = (s \<noteq> [])"
| "truthy (JArr xs) = True"
| "truthy (JObj kvs) = True"

fun nullish :: "jsval \<Rightarrow> bool" where
  "nullish JUndefined = True"
| "nullish JNull = True"
| "nullish v = False"

fun isArray :: "jsval \<Rightarrow> bool" where
  "isArray (JArr xs) = True"
| "isArray v = False"

fun elems :: "jsval \<Rightarrow> jsval list" where
  "elems (JArr xs) = xs"
| "elems v = []"

text \<open>
  \<^verbatim>\<open>v.k\<close> for a JSON member name \<open>k\<close>, on a value that is not \<^verbatim>\<open>null\<close> or
  \<^verbatim>\<open>undefined\<close> (there the access throws, and the callers below test \<open>nullish\<close> first).
\<close>

fun get_prop :: "jsval \<Rightarrow> string \<Rightarrow> jsval" where
  "get_prop (JObj kvs) k = (case map_of kvs k of Some v \<Rightarrow> v | None \<Rightarrow> JUndefined)"
| "get_prop v k = JUndefined"

text \<open>
  \<^verbatim>\<open>a === b\<close> between two values that come from different requests: primitives are
  compared by type and value, two arrays or two objects are never the same reference.
\<close>

fun strict_eq :: "jsval \<Rightarrow> jsval \<Rightarrow> bool" where
  "strict_eq JUndefined JUndefined = True"
| "strict_eq JNull JNull = True"
| "strict_eq (JBool a) (JBool b) = (a = b)"
| "strict_eq (JNum a) (JNum b) = (a = b)"
| "strict_eq (JStr a) (JStr b) = (a = b)"
| "strict_eq v w = False"

text \<open>
  \<^verbatim>\<open>s.toLowerCase()\<close> on ASCII text: the letters A to Z are lowered, every other
  code unit is kept. \<^verbatim>\<open>s.startsWith(p)\<close> and \<^verbatim>\<open>s.includes(p)\<close> compare code units.
\<close>

definition lower_char :: "char \<Rightarrow> char" where
  "lower_char c =
     (case map_of (zip ''ABCDEFGHIJKLMNOPQRSTUVWXYZ'' ''abcdefghijklmnopqrstuvwxyz'') c of
        Some l \<Rightarrow> l
      | None \<Rightarrow> c)"

definition toLowerCase :: "string \<Rightarrow> string" where
  "toLowerCase s = map lower_char s"

definition startsWith :: "string \<Rightarrow> string \<Rightarrow> bool" where
  "startsWith s p = (take (length p) s = p)"

fun str_includes :: "string \<Rightarrow> string \<Rightarrow> bool" where
  "str_includes [] p = (p = [])"
| "str_includes (c # s) p = (startsWith (c # s) p \<or> str_includes s p)"

section \<open>Webhook service: the subscription registry\<close>

text \<open>
  A subscription as \<^verbatim>\<open>POST /subscriptions\<close> builds it (server.js, lines 65 to 75).
  \<open>url\<close>, the patterns and \<open>secret\<close> are stored as they arrived; times are
  milliseconds.
\<close>

record subscription =
  sub_id :: string
  url :: jsval
  events :: "jsval list"
  secret :: jsval
  active :: bool
  createdAt :: nat
  lastNotified :: "nat option"
  successCount :: nat
  errorCount :: nat

text \<open>
  The test of one pattern (lines 151 to 153). The third disjunct calls
  \<^verbatim>\<open>subscribedEvent.startsWith\<close> and \<^verbatim>\<open>event.objectType.toLowerCase\<close>, which exist on
  strings only: on any other value the call throws a TypeError.
\<close>

definition patternTest :: "jsval \<Rightarrow> jsval \<Rightarrow> error + bool" where
  "patternTest subscribedEvent event =
     (if strict_eq subscribedEvent (JStr ''*'') then Inr True
      else if strict_eq subscribedEvent (get_prop event ''eventType'') then Inr True
      else (case subscribedEvent of
              JStr p \<Rightarrow>
                (case get_prop event ''objectType'' of
                   JStr t \<Rightarrow> Inr (startsWith p (toLowerCase t))
                 | _ \<Rightarrow> Inl TypeError)
            | _ \<Rightarrow> Inl TypeError))"

text \<open>\<^verbatim>\<open>subscription.events.some(...)\<close>: stops at the first pattern that passes.\<close>

fun eventMatch :: "jsval list \<Rightarrow> jsval \<Rightarrow> error + bool" where
  "eventMatch [] event = Inr False"
| "eventMatch (p # ps) event =
     (case patternTest p event of
        Inl e \<Rightarrow> Inl e
      | Inr True \<Rightarrow> Inr True
      | Inr False \<Rightarrow> eventMatch ps event)"

text \<open>Lines 147 to 156: an inactive subscription is skipped before its patterns are read.\<close>

definition matches :: "subscription \<Rightarrow> jsval \<Rightarrow> error + bool" where
  "matches subscription event =
     (if \<not> active subscription then Inr False
      else eventMatch (events subscription) event)"

section \<open>Webhook service: delivery\<close>

text \<open>
  What the network does to one \<^verbatim>\<open>axios.post\<close>: no response at all, no response within
  the 30 seconds of \<^verbatim>\<open>timeout: 30000\<close>, or a response with a status.
\<close>

datatype http_outcome = NetworkError | Timeout | Response nat

datatype settled = Fulfilled | Rejected

text \<open>Line 199: \<^verbatim>\<open>validateStatus: (status) => status < 500\<close>.\<close>

definition validateStatus :: "nat \<Rightarrow> bool" where
  "validateStatus status = (status < 500)"

text \<open>\<^verbatim>\<open>await axios.post(...)\<close> returns when a response passes \<open>validateStatus\<close> and throws
  otherwise.\<close>

fun axios_post_resolves :: "http_outcome \<Rightarrow> bool" where
  "axios_post_resolves (Response status) = validateStatus status"
| "axios_post_resolves NetworkError = False"
| "axios_post_resolves Timeout = False"

text \<open>
  Line 191: \<^verbatim>\<open>crypto.createHmac('sha256', subscription.secret || 'default')\<close> takes a string
  key (of the values JSON can carry) and throws on any other; the throw is inside the
  \<^verbatim>\<open>try\<close>.
\<close>

definition createHmac_throws :: "jsval \<Rightarrow> bool" where
  "createHmac_throws sec =
     (case (if truthy sec then sec else JStr ''default'') of
        JStr k \<Rightarrow> False
      | _ \<Rightarrow> True)"

text \<open>
  \<^verbatim>\<open>notifySubscriber\<close> (lines 178 to 222), with the time and the fate of its one request
  given. It returns how its promise settles and the subscription as it has mutated it.
\<close>

definition notifySubscriber :: "subscription \<Rightarrow> nat \<Rightarrow> http_outcome \<Rightarrow> settled \<times> subscription" where
  "notifySubscriber subscription now r =
     (if \<not> createHmac_throws (secret subscription) \<and> axios_post_resolves r
      then (Fulfilled,
            subscription\<lparr>successCount := successCount subscription + 1,
                         lastNotified := Some now\<rparr>)
      else (let s1 = subscription\<lparr>errorCount := errorCount subscription + 1\<rparr>
            in (Rejected, if errorCount s1 > 10 then s1\<lparr>active := False\<rparr> else s1)))"

section \<open>Webhook service: state and handlers\<close>

text \<open>
  \<open>subscribers\<close> is the \<^verbatim>\<open>Map\<close> of line 52 in insertion order. The Redis client, when
  there is one, holds the hash \<^verbatim>\<open>webhook:subscriptions\<close>, the event keys
  \<^verbatim>\<open>webhook:events:<time>:<uuid>\<close> (here the pair of time and uuid) each with the time
  at which it expires and the event stored under it, and the list
  \<^verbatim>\<open>webhook:processing_queue\<close>. Redis commands are taken to succeed.
\<close>

record redis_store =
  subscriptions_hash :: "(string \<times> subscription) list"
  event_keys :: "((nat \<times> string) \<times> nat \<times> jsval) list"
  processing_queue :: "(nat \<times> string) list"

record state =
  subscribers :: "(string \<times> subscription) list"
  redisClient :: "redis_store option"

datatype response =
    Created string
  | BadRequest
  | NotFound
  | Deleted
  | Processed jsval nat nat
  | Unavailable
  | ServerError
  | NoResponse error

text \<open>The HTTP status of a response; a handler that threw outside a \<^verbatim>\<open>try\<close> sends none.\<close>

fun status :: "response \<Rightarrow> nat option" where
  "status (Created i) = Some 201"
| "status BadRequest = Some 400"
| "status NotFound = Some 404"
| "status Deleted = Some 200"
| "status (Processed eid sent failed) = Some 200"
| "status Unavailable = Some 503"
| "status ServerError = Some 500"
| "status (NoResponse e) = None"

text \<open>\<^verbatim>\<open>POST /subscriptions\<close> (lines 55 to 89); \<open>uuid\<close> is what \<^verbatim>\<open>crypto.randomUUID()\<close>
  returns.\<close>

definition post_subscriptions :: "state \<Rightarrow> jsval \<Rightarrow> string \<Rightarrow> nat \<Rightarrow> response \<times> state" where
  "post_subscriptions st body uuid now =
     (if nullish body then (NoResponse TypeError, st)
      else if \<not> truthy (get_prop body ''url'') \<or> \<not> truthy (get_prop body ''events'')
              \<or> \<not> isArray (get_prop body ''events'')
      then (BadRequest, st)
      else (let subscription =
                  \<lparr>sub_id = uuid, url = get_prop body ''url'',
                   events = elems (get_prop body ''events''),
                   secret = get_prop body ''secret'', active = True, createdAt = now,
                   lastNotified = None, successCount = 0, errorCount = 0\<rparr>
            in (Created uuid,
                st\<lparr>subscribers := AList.update uuid subscription (subscribers st),
                   redisClient :=
                     map_option
                       (\<lambda>r. r\<lparr>subscriptions_hash :=
                                  AList.update uuid subscription (subscriptions_hash r)\<rparr>)
                       (redisClient st)\<rparr>)))"


text \<open>Lines 136 to 142: the event is stored for 24 hours and its key is queued.\<close>

definition record_event :: "jsval \<Rightarrow> nat \<Rightarrow> string \<Rightarrow> redis_store \<Rightarrow> redis_store" where
  "record_event event now uuid r =
     r\<lparr>event_keys := event_keys r @ [((now, uuid), now + 86400 * 1000, event)],
       processing_queue := (now, uuid) # processing_queue r\<rparr>"

text \<open>
  The loop of lines 146 to 159: the subscriptions \<^verbatim>\<open>notifySubscriber\<close> is called for, in
  order, and the TypeError that ended the loop, if one did.
\<close>

fun fanout :: "(string \<times> subscription) list \<Rightarrow> jsval \<Rightarrow> (string \<times> subscription) list \<times> error option" where
  "fanout [] event = ([], None)"
| "fanout ((i, s) # rest) event =
     (case matches s event of
        Inl e \<Rightarrow> ([], Some e)
      | Inr True \<Rightarrow> (case fanout rest event of (notified, e) \<Rightarrow> ((i, s) # notified, e))
      | Inr False \<Rightarrow> fanout rest event)"

text \<open>
  The notifications run together and each one reads and writes its own subscription
  object only, so the order in which they settle does not show: \<open>settle\<close> gives every
  notified subscription what its own \<^verbatim>\<open>notifySubscriber\<close> made of it.
\<close>

definition settle :: "nat \<Rightarrow> (string \<Rightarrow> http_outcome) \<Rightarrow> (string \<times> subscription) list \<Rightarrow>
    (string \<times> subscription) list \<Rightarrow> (string \<times> subscription) list" where
  "settle now out notified subs =
     map (\<lambda>(i, s). if i \<in> set (map fst notified)
                    then (i, snd (notifySubscriber s now (out i))) else (i, s)) subs"

text \<open>
  \<^verbatim>\<open>POST /webhook\<close> (lines 116 to 175). \<open>out\<close> tells what happens to the request sent to
  each subscription. The result is the response, the ids of the subscriptions a delivery
  was started for, and the state. \<^verbatim>\<open>Promise.allSettled\<close> (line 162) never rejects; its
  results are counted in lines 172 and 173.
\<close>

definition post_webhook :: "state \<Rightarrow> jsval \<Rightarrow> nat \<Rightarrow> string \<Rightarrow> (string \<Rightarrow> http_outcome) \<Rightarrow>
    response \<times> string list \<times> state" where
  "post_webhook st event now uuid out =
     (if nullish event then (NoResponse TypeError, [], st)
      else if \<not> truthy (get_prop event ''eventType'') \<or> \<not> truthy (get_prop event ''objectType'')
              \<or> \<not> truthy (get_prop event ''objectId'')
      then (BadRequest, [], st)
      else (let st1 = st\<lparr>redisClient := map_option (record_event event now uuid) (redisClient st)\<rparr>;
                notified = fst (fanout (subscribers st1) event);
                results = map (\<lambda>(i, s). fst (notifySubscriber s now (out i))) notified;
                st2 = st1\<lparr>subscribers := settle now out notified (subscribers st1)\<rparr>
            in (case snd (fanout (subscribers st1) event) of
                  Some e \<Rightarrow> (NoResponse e, map fst notified, st2)
                | None \<Rightarrow>
                    (Processed (get_prop event ''eventId'')
                       (length (filter (\<lambda>r. r = Fulfilled) results))
                       (length (filter (\<lambda>r. r = Rejected) results)),
                     map fst notified, st2))))"

text \<open>
  \<^verbatim>\<open>POST /replay/:eventId\<close> (lines 225 to 251). \<^verbatim>\<open>keys('webhook:events:*')\<close> gives the
  keys that have not expired; \<^verbatim>\<open>events.find\<close> reads \<^verbatim>\<open>e.event.eventId\<close> of each in turn.
\<close>

definition live_keys :: "nat \<Rightarrow> redis_store \<Rightarrow> ((nat \<times> string) \<times> nat \<times> jsval) list" where
  "live_keys now r = filter (\<lambda>(k, expires, e). now < expires) (event_keys r)"

fun find_event :: "((nat \<times> string) \<times> nat \<times> jsval) list \<Rightarrow> string \<Rightarrow> error + jsval option" where
  "find_event [] eventId = Inr None"
| "find_event ((k, expires, e) # rest) eventId =
     (if nullish e then Inl TypeError
      else if strict_eq (get_prop e ''eventId'') (JStr eventId) then Inr (Some e)
      else find_event rest eventId)"

text \<open>
  Line 246 is \<^verbatim>\<open>return app.post('/webhook')(req, res)\<close>. \<^verbatim>\<open>app.post\<close> with a path and no
  handler does not look a handler up: it registers a route. What it returns is Express's
  (the library is not part of the repository): in Express 4 the application itself, which
  line 246 then calls with the request, still a \<^verbatim>\<open>POST /replay/:eventId\<close>; in Express 5
  the call throws, and line 249 answers 500.
\<close>

datatype express = ReturnsApp | Throws

datatype replay_result = Responded response | Redispatched string jsval

definition post_replay :: "express \<Rightarrow> state \<Rightarrow> string \<Rightarrow> nat \<Rightarrow> replay_result" where
  "post_replay lib st eventId now =
     (case redisClient st of
        None \<Rightarrow> Responded Unavailable
      | Some r \<Rightarrow>
          (case find_event (live_keys now r) eventId of
             Inl err \<Rightarrow> Responded ServerError
           | Inr None \<Rightarrow> Responded NotFound
           | Inr (Some e) \<Rightarrow>
               (case lib of
                  ReturnsApp \<Rightarrow> Redispatched (''/replay/'' @ eventId) e
                | Throws \<Rightarrow> Responded ServerError)))"




section \<open>Webhook sync: configuration and intake\<close>

text \<open>
  Lines 19 and 20: \<^verbatim>\<open>parseInt(process.env.X) || d\<close>. The argument is the integer
  \<^verbatim>\<open>parseInt\<close> reads, or \<open>None\<close> when the variable is not set or is not a number.
\<close>

definition env_int :: "int option \<Rightarrow> int \<Rightarrow> int" where
  "env_int v d = (case v of None \<Rightarrow> d | Some n \<Rightarrow> if n = 0 then d else n)"

record config =
  processingDelay :: int
  maxRetries :: int

definition load_config :: "int option \<Rightarrow> int option \<Rightarrow> config" where
  "load_config PROCESSING_DELAY MAX_RETRIES =
     \<lparr>processingDelay = env_int PROCESSING_DELAY 1000, maxRetries = env_int MAX_RETRIES 3\<rparr>"

text \<open>A job of the processing queue: its data and options are those of lines 257 to 273.\<close>

record job_data =
  eventType :: jsval
  objectType :: jsval
  objectId :: jsval
  properties :: jsval
  occurredAt :: jsval

datatype backoff_type = Exponential | Fixed

record job_opts =
  delay :: int
  attempts :: int
  backoff_kind :: backoff_type
  backoff_delay :: int

datatype job_state = Pending int | Processing | Done | Failed

record job =
  job_name :: string
  jdata :: job_data
  opts :: job_opts
  attemptsMade :: int
  jstate :: job_state

record http_request =
  req_headers :: "(string \<times> string) list"
  req_body :: jsval

text \<open>
  What the sync service does to the outside, in order: a \<^verbatim>\<open>GET\<close> of an object (type and
  id) from the CRM, a push to the sink (the object type its \<^verbatim>\<open>source\<close> is named after, and
  the data), an increment of \<^verbatim>\<open>webhook_sync_errors_total\<close> with its two labels, an entry
  in the error log, a warning. The counters of requests and the info and debug lines are
  left out.
\<close>

datatype effect =
    CrmGet jsval jsval
  | SinkPost jsval "jsval list"
  | ErrorMetric string string
  | ErrorLog
  | WarnLog

datatype sync_response = Received jsval | InvalidSignature | Failure

fun sync_status :: "sync_response \<Rightarrow> nat" where
  "sync_status (Received eid) = 200"
| "sync_status InvalidSignature = 401"
| "sync_status Failure = 500"

text \<open>
  \<^verbatim>\<open>validateWebhookSignature\<close> (lines 240 to 254). Its first statement is
  \<^verbatim>\<open>return true\<close>, under the comment ``Temporarily disable signature validation for
  debugging''; the comparison of the \<^verbatim>\<open>x-hubspot-signature\<close> header with the HMAC of the
  body, which follows it, is never reached.
\<close>

definition validateWebhookSignature :: "http_request \<Rightarrow> bool" where
  "validateWebhookSignature req = True"

text \<open>
  \<^verbatim>\<open>queueEventForProcessing\<close> (lines 256 to 274). \<^verbatim>\<open>processingQueue.add\<close> is taken to
  succeed; a delayed job waits until \<open>now + delay\<close>.
\<close>

definition new_job :: "config \<Rightarrow> jsval \<Rightarrow> int \<Rightarrow> job" where
  "new_job cfg event now =
     \<lparr>job_name = ''sync-object'',
      jdata = \<lparr>eventType = get_prop event ''eventType'',
                objectType = get_prop event ''objectType'',
                objectId = get_prop event ''objectId'',
                properties = get_prop event ''properties'',
                occurredAt = (if truthy (get_prop event ''occurredAt'')
                              then get_prop event ''occurredAt'' else JNum (of_int now))\<rparr>,
      opts = \<lparr>delay = processingDelay cfg, attempts = maxRetries cfg,
               backoff_kind = Exponential, backoff_delay = 2000\<rparr>,
      attemptsMade = 0,
      jstate = Pending (now + processingDelay cfg)\<rparr>"

definition queueEventForProcessing :: "config \<Rightarrow> job list \<Rightarrow> jsval \<Rightarrow> int \<Rightarrow> job list" where
  "queueEventForProcessing cfg queue event now = queue @ [new_job cfg event now]"

text \<open>
  \<^verbatim>\<open>handleWebhook\<close> (lines 184 to 238): the response, the warnings and errors logged or
  counted, and the queue. \<^verbatim>\<open>req.body.event\<close> throws inside the \<^verbatim>\<open>try\<close> when there is no
  body.
\<close>

definition handleWebhook :: "config \<Rightarrow> job list \<Rightarrow> http_request \<Rightarrow> int \<Rightarrow>
    sync_response \<times> effect list \<times> job list" where
  "handleWebhook cfg queue req now =
     (if nullish (req_body req)
      then (Failure, [ErrorLog, ErrorMetric ''webhook_error'' ''receive''], queue)
      else (let event = (if truthy (get_prop (req_body req) ''event'')
                         then get_prop (req_body req) ''event'' else req_body req)
            in if \<not> validateWebhookSignature req then (InvalidSignature, [WarnLog], queue)
               else (Received (get_prop event ''eventId''), [],
                     queueEventForProcessing cfg queue event now)))"

section \<open>Webhook sync: the worker\<close>

text \<open>
  The two collaborators as the worker sees them. The CRM answers a
  \<^verbatim>\<open>GET /crm/v3/objects/:type/:id\<close> with a status and a body, or not at all (network
  failure, or the 10 seconds of line 341 are over); the sink answers the push likewise.
  \<^verbatim>\<open>convertToDataboxFormat\<close> (lines 394 to 414) is the field mapping; nothing below
  depends on what it maps, only on whether it returns.
\<close>

datatype crm_outcome = CrmNoResponse | CrmResponse nat jsval

record sync_env =
  crm :: "jsval \<Rightarrow> jsval \<Rightarrow> crm_outcome"
  convertToDataboxFormat :: "jsval \<Rightarrow> jsval \<Rightarrow> error + jsval"
  databox :: "jsval \<Rightarrow> jsval list \<Rightarrow> http_outcome"

text \<open>A request of \<^verbatim>\<open>axios\<close> with its default \<^verbatim>\<open>validateStatus\<close> resolves on a 2xx status.\<close>

definition ok_status :: "nat \<Rightarrow> bool" where
  "ok_status st = (200 \<le> st \<and> st < 300)"

text \<open>\<^verbatim>\<open>fetchObjectFromHubSpot\<close> (lines 331 to 366): a 404 becomes \<^verbatim>\<open>null\<close>.\<close>

definition fetchObjectFromHubSpot :: "sync_env \<Rightarrow> jsval \<Rightarrow> jsval \<Rightarrow> (error + jsval) \<times> effect list" where
  "fetchObjectFromHubSpot env t i =
     (case crm env t i of
        CrmResponse st data \<Rightarrow>
          (if ok_status st then (Inr data, [CrmGet t i])
           else if st = 404 then (Inr JNull, [CrmGet t i, WarnLog])
           else (Inl AxiosError, [CrmGet t i]))
      | CrmNoResponse \<Rightarrow> (Inl AxiosError, [CrmGet t i]))"

text \<open>\<^verbatim>\<open>sendToDatabox\<close> (lines 416 to 432); the payload is the data and the object type its
  \<^verbatim>\<open>source\<close> is named after.\<close>

definition sendToDatabox :: "sync_env \<Rightarrow> jsval \<Rightarrow> jsval list \<Rightarrow> (error + unit) \<times> effect list" where
  "sendToDatabox env t payload =
     (case databox env t payload of
        Response st \<Rightarrow>
          (if ok_status st then (Inr (), [SinkPost t payload])
           else (Inl AxiosError, [SinkPost t payload, ErrorLog]))
      | _ \<Rightarrow> (Inl AxiosError, [SinkPost t payload, ErrorLog]))"

text \<open>\<^verbatim>\<open>sendObjectToDatabox\<close> (lines 368 to 379): nothing is sent for a falsy object.\<close>

definition sendObjectToDatabox :: "sync_env \<Rightarrow> jsval \<Rightarrow> jsval \<Rightarrow> (error + unit) \<times> effect list" where
  "sendObjectToDatabox env t objectData =
     (if \<not> truthy objectData then (Inr (), [])
      else (case convertToDataboxFormat env t objectData of
              Inl e \<Rightarrow> (Inl e, [])
            | Inr databoxData \<Rightarrow> sendToDatabox env t [databoxData]))"

text \<open>
  \<^verbatim>\<open>eventType.includes('creation')\<close> (line 284): a substring test on a string, a
  membership test on an array, a TypeError on every other value.
\<close>

fun includes_call :: "jsval \<Rightarrow> string \<Rightarrow> error + bool" where
  "includes_call (JStr s) p = Inr (str_includes s p)"
| "includes_call (JArr xs) p = Inr (JStr p \<in> set xs)"
| "includes_call v p = Inl TypeError"

text \<open>Line 284, the condition under which the object is fetched.\<close>

definition fetch_condition :: "job_data \<Rightarrow> error + bool" where
  "fetch_condition d =
     (case includes_call (eventType d) ''creation'' of
        Inl e \<Rightarrow> Inl e
      | Inr c \<Rightarrow> Inr (c \<or> \<not> truthy (properties d)))"

text \<open>
  \<^verbatim>\<open>processObjectSync\<close> (lines 276 to 306): how the job handler settles, and the requests,
  log entries and error counts it makes, in order.
\<close>

definition sync_failed :: "effect list \<Rightarrow> settled \<times> effect list" where
  "sync_failed eff = (Rejected, eff @ [ErrorLog, ErrorMetric ''sync_error'' ''process_object''])"

definition processObjectSync :: "sync_env \<Rightarrow> job_data \<Rightarrow> settled \<times> effect list" where
  "processObjectSync env d =
     (case fetch_condition d of
        Inl e \<Rightarrow> sync_failed []
      | Inr fetch \<Rightarrow>
          (case (if fetch then fetchObjectFromHubSpot env (objectType d) (objectId d)
                 else (Inr (JObj [(''id'', objectId d), (''properties'', properties d)]), [])) of
             (Inl e, eff1) \<Rightarrow> sync_failed eff1
           | (Inr objectData, eff1) \<Rightarrow>
               (case sendObjectToDatabox env (objectType d) objectData of
                  (Inl e, eff2) \<Rightarrow> sync_failed (eff1 @ eff2)
                | (Inr u, eff2) \<Rightarrow> (Fulfilled, eff1 @ eff2))))"

text \<open>The listener of lines 148 to 151, \<^verbatim>\<open>processingQueue.on('failed', ...)\<close>.\<close>

definition on_failed :: "job \<Rightarrow> effect list" where
  "on_failed j = [ErrorLog, ErrorMetric ''job_failure'' (job_name j)]"

text \<open>
  Modelled from the spec: the job state machine of the queue, which the repository takes
  from the \<^verbatim>\<open>bull\<close> library (not under src/). Section 4.6 of the specification:
  ``\<^verbatim>\<open>Pending(visible_at) -> Processing -> {Done | Pending(visible_at=now+backoff, attempt+1) | Failed}\<close>'';
  a worker claims a job whose visible time has elapsed; ``on transient failure attempt
  count increments; if attempt count < max attempts, job re-enters Pending with
  exponential backoff (e.g., base 2s, multiplier 2); if attempt count reaches max, job
  transitions to Failed and is surfaced via an error metric/log''.
\<close>

definition backoff_ms :: "job_opts \<Rightarrow> int \<Rightarrow> int" where
  "backoff_ms opt n =
     (case backoff_kind opt of
        Exponential \<Rightarrow> backoff_delay opt * 2 ^ nat (n - 1)
      | Fixed \<Rightarrow> backoff_delay opt)"

definition claim :: "int \<Rightarrow> job \<Rightarrow> job option" where
  "claim now j =
     (case jstate j of
        Pending visible_at \<Rightarrow> if visible_at \<le> now then Some (j\<lparr>jstate := Processing\<rparr>) else None
      | _ \<Rightarrow> None)"

definition finish :: "int \<Rightarrow> settled \<Rightarrow> job \<Rightarrow> job \<times> effect list" where
  "finish now r j =
     (case r of
        Fulfilled \<Rightarrow> (j\<lparr>jstate := Done\<rparr>, [])
      | Rejected \<Rightarrow>
          (let n = attemptsMade j + 1
           in if n < attempts (opts j)
              then (j\<lparr>attemptsMade := n, jstate := Pending (now + backoff_ms (opts j) n)\<rparr>, [])
              else (j\<lparr>attemptsMade := n, jstate := Failed\<rparr>, on_failed j)))"

text \<open>One poll of a worker at time \<open>now\<close>: the job afterwards and what was done.\<close>

definition work :: "sync_env \<Rightarrow> int \<Rightarrow> job \<Rightarrow> job \<times> effect list" where
  "work env now j =
     (case claim now j of
        None \<Rightarrow> (j, [])
      | Some jp \<Rightarrow>
          (case processObjectSync env (jdata jp) of
             (r, eff) \<Rightarrow> (case finish now r jp of (j', eff') \<Rightarrow> (j', eff @ eff'))))"

fun run_worker :: "(sync_env \<times> int) list \<Rightarrow> job \<Rightarrow> job \<times> effect list" where
  "run_worker [] j = (j, [])"
| "run_worker ((env, now) # polls) j =
     (case work env now j of
        (j', eff) \<Rightarrow> (case run_worker polls j' of (j'', eff') \<Rightarrow> (j'', eff @ eff')))"

section \<open>The specification's wording, and sample inputs\<close>

text \<open>
  Section 4.1 of the specification on \<^verbatim>\<open>matches\<close>: ``true iff active and at least one
  pattern equals \<^verbatim>\<open>*\<close>, equals the event type exactly, or the pattern (case-insensitive)
  is a prefix of the event's object type''.
\<close>

definition spec_pattern :: "jsval \<Rightarrow> jsval \<Rightarrow> bool" where
  "spec_pattern p event =
     (p = JStr ''*'' \<or> p = get_prop event ''eventType'' \<or>
      (case (p, get_prop event ''objectType'') of
         (JStr q, JStr t) \<Rightarrow> prefix (toLowerCase q) (toLowerCase t)
       | _ \<Rightarrow> False))"

definition spec_matches :: "subscription \<Rightarrow> jsval \<Rightarrow> bool" where
  "spec_matches s event = (active s \<and> list_ex (\<lambda>p. spec_pattern p event) (events s))"

text \<open>
  Section 4.1 on \<^verbatim>\<open>register\<close>: ``fails with ValidationError if destination is missing or
  eventPatterns is empty/not a list''.
\<close>

definition spec_register_fails :: "jsval \<Rightarrow> bool" where
  "spec_register_fails body =
     (get_prop body ''url'' = JUndefined \<or>
      (case get_prop body ''events'' of JArr ps \<Rightarrow> ps = [] | _ \<Rightarrow> True))"





text \<open>Sample subscriptions, events, request bodies and states.\<close>

definition subscription_for :: "string \<Rightarrow> jsval list \<Rightarrow> subscription" where
  "subscription_for i ps =
     \<lparr>sub_id = i, url = JStr ''http://sink/hook'', events = ps, secret = JUndefined,
      active = True, createdAt = 0, lastNotified = None, successCount = 0, errorCount = 0\<rparr>"

definition change_event :: "string \<Rightarrow> string \<Rightarrow> string \<Rightarrow> jsval" where
  "change_event et ot oi =
     JObj [(''eventType'', JStr et), (''objectType'', JStr ot), (''objectId'', JStr oi)]"

definition event_with_id :: "string \<Rightarrow> string \<Rightarrow> string \<Rightarrow> string \<Rightarrow> jsval" where
  "event_with_id eid et ot oi =
     JObj [(''eventId'', JStr eid), (''eventType'', JStr et), (''objectType'', JStr ot),
           (''objectId'', JStr oi)]"

definition registration :: "string \<Rightarrow> jsval list \<Rightarrow> jsval" where
  "registration u ps = JObj [(''url'', JStr u), (''events'', JArr ps)]"

definition empty_state :: state where
  "empty_state = \<lparr>subscribers = [], redisClient = None\<rparr>"



definition all_ok :: "string \<Rightarrow> http_outcome" where
  "all_ok i = Response 200"



definition retaining_state :: state where
  "retaining_state =
     \<lparr>subscribers = [(''s1'', subscription_for ''s1'' [JStr ''*''])],
      redisClient = Some \<lparr>subscriptions_hash = [], event_keys = [], processing_queue = []\<rparr>\<rparr>"

definition replay_event :: jsval where
  "replay_event = event_with_id ''evt-1'' ''company.propertyChange'' ''company'' ''42''"

definition after_publish :: state where
  "after_publish = snd (snd (post_webhook retaining_state replay_event 1000 ''k1'' all_ok))"

text \<open>The signature header of a request to the intake, the configuration when no
  environment variable is set, and a webhook delivery that carries no signature.\<close>

definition signature_header :: "http_request \<Rightarrow> string option" where
  "signature_header req = map_of (req_headers req) ''x-hubspot-signature''"

definition default_config :: config where
  "default_config = load_config None None"

definition unsigned_request :: http_request where
  "unsigned_request =
     \<lparr>req_headers = [(''content-type'', ''application/json'')],
      req_body = JObj [(''subscriptionId'', JStr ''s1''),
                       (''event'', event_with_id ''evt-1'' ''company.creation'' ''company'' ''42'')]\<rparr>"

text \<open>
  Section 4.6 of the specification, step 1: ``if the event carries only a partial property
  set or represents a creation, fetch full object state''. A job carries a partial
  property set of an object when it carries properties and lacks one the object has.
\<close>

definition carries_partial :: "jsval \<Rightarrow> job_data \<Rightarrow> bool" where
  "carries_partial object d =
     (case get_prop object ''properties'' of
        JObj members \<Rightarrow>
          truthy (properties d)
          \<and> list_ex (\<lambda>k. get_prop (properties d) k = JUndefined) (map fst members)
      | _ \<Rightarrow> False)"

text \<open>The invariant of a job: its options never change, and its attempt count is below the
  maximum until it has failed, when it is the maximum.\<close>

definition job_inv :: "job_opts \<Rightarrow> job \<Rightarrow> bool" where
  "job_inv opt j =
     (opts j = opt \<and> job_name j = ''sync-object'' \<and> 0 \<le> attemptsMade j
      \<and> (if jstate j = Failed then attemptsMade j = attempts opt
          else attemptsMade j < attempts opt))"

text \<open>A run of polls each of which finds the job due and ends in a rejection.\<close>

fun rejected_run :: "(sync_env \<times> int) list \<Rightarrow> job \<Rightarrow> bool" where
  "rejected_run [] j = True"
| "rejected_run ((env, now) # polls) j =
     (claim now j \<noteq> None \<and> fst (processObjectSync env (jdata j)) = Rejected
      \<and> rejected_run polls (fst (work env now j)))"

text \<open>A company in the CRM, collaborators that answer every request the same way, and
  sample jobs.\<close>

definition crm_company :: jsval where
  "crm_company =
     JObj [(''id'', JStr ''42''),
           (''properties'', JObj [(''name'', JStr ''Acme''), (''domain'', JStr ''acme.test''),
                                  (''industry'', JStr ''Tools'')])]"

definition sample_env :: "crm_outcome \<Rightarrow> http_outcome \<Rightarrow> sync_env" where
  "sample_env c r =
     \<lparr>crm = (\<lambda>t i. c),
      convertToDataboxFormat = (\<lambda>t object. Inr (JObj [(''objectId'', get_prop object ''id'')])),
      databox = (\<lambda>t payload. r)\<rparr>"

definition change_job :: job_data where
  "change_job =
     \<lparr>eventType = JStr ''company.propertyChange'', objectType = JStr ''companies'',
      objectId = JStr ''42'', properties = JObj [(''name'', JStr ''Acme Ltd'')],
      occurredAt = JNum 1000\<rparr>"

definition creation_job :: job_data where
  "creation_job =
     \<lparr>eventType = JStr ''company.creation'', objectType = JStr ''companies'',
      objectId = JStr ''42'', properties = JObj [(''name'', JStr ''Acme Ltd'')],
      occurredAt = JNum 1000\<rparr>"

definition sink_down :: sync_env where
  "sink_down = sample_env (CrmResponse 200 crm_company) (Response 503)"

definition creation_event :: jsval where
  "creation_event = event_with_id ''evt-1'' ''company.creation'' ''companies'' ''42''"

definition pending_job :: "job_data \<Rightarrow> job" where
  "pending_job d =
     \<lparr>job_name = ''sync-object'', jdata = d,
      opts = \<lparr>delay = 1000, attempts = 3, backoff_kind = Exponential, backoff_delay = 2000\<rparr>,
      attemptsMade = 0, jstate = Pending 2000\<rparr>"

section \<open>Strings and strict equality\<close>

lemma startsWith_prefix: "startsWith s p = prefix p s"
  by (metis startsWith_def prefix_def append_eq_conv_conj append_take_drop_id)

lemma strict_eq_str: "strict_eq (JStr q) v = (v = JStr q)"
  by (cases v) auto

section \<open>Matching\<close>

lemma eventMatch_strings:
  assumes "\<forall>p\<in>set ps. \<exists>q. p = JStr q" and "get_prop ev ''objectType'' = JStr t"
  shows "eventMatch ps ev =
     Inr (\<exists>p\<in>set ps. p = JStr ''*'' \<or> p = get_prop ev ''eventType'' \<or>
                (\<exists>q. p = JStr q \<and> prefix (toLowerCase t) q))"
  using assms
proof (induction ps)
  case Nil
  then show ?case by simp
next
  case (Cons p ps)
  then obtain q where q: "p = JStr q" by auto
  have pt: "patternTest p ev =
      Inr (q = ''*'' \<or> get_prop ev ''eventType'' = JStr q \<or> prefix (toLowerCase t) q)"
    using Cons.prems(2) by (simp add: patternTest_def q strict_eq_str startsWith_prefix)
  have ih: "eventMatch ps ev =
     Inr (\<exists>p\<in>set ps. p = JStr ''*'' \<or> p = get_prop ev ''eventType'' \<or>
                (\<exists>q. p = JStr q \<and> prefix (toLowerCase t) q))"
    using Cons by simp
  show ?case
    using pt ih unfolding q by (auto split: bool.splits)
qed

text \<open>
  Claim C1, as the specification words it, fails: the code does not ask whether the
  pattern is a prefix of the object type, but whether the pattern starts with the
  lower-cased object type. The pattern \<^verbatim>\<open>company.propertyChange\<close> therefore matches a
  \<^verbatim>\<open>company.creation\<close> event of object type \<^verbatim>\<open>company\<close>, which the specification's rule
  excludes.
\<close>

theorem matches_spec_counterexample:
  "\<not> (matches (subscription_for ''s1'' [JStr ''company.propertyChange''])
          (change_event ''company.creation'' ''company'' ''42'') = Inr True
      \<longleftrightarrow> spec_matches (subscription_for ''s1'' [JStr ''company.propertyChange''])
            (change_event ''company.creation'' ''company'' ''42''))"
  by (simp add: matches_def subscription_for_def change_event_def patternTest_def
        spec_matches_def spec_pattern_def startsWith_def toLowerCase_def lower_char_def)

text \<open>
  Claim C1, amended: for a subscription whose patterns are strings and an event whose
  object type is a string, \<^verbatim>\<open>matches\<close> is true if and only if the subscription is active
  and at least one of its patterns equals \<^verbatim>\<open>*\<close>, equals the event type exactly, or starts
  with the lower-cased object type of the event (the pattern is compared as written).
\<close>

theorem matches_characterisation:
  assumes "\<forall>p\<in>set (events s). \<exists>q. p = JStr q" and "get_prop ev ''objectType'' = JStr t"
  shows "matches s ev =
     Inr (active s \<and> (\<exists>p\<in>set (events s). p = JStr ''*'' \<or> p = get_prop ev ''eventType'' \<or>
                (\<exists>q. p = JStr q \<and> prefix (toLowerCase t) q)))"
  using eventMatch_strings[OF assms] by (simp add: matches_def)

text \<open>
  The two examples of the specification: the pattern \<^verbatim>\<open>company\<close> matches a
  \<^verbatim>\<open>company.propertyChange\<close> event of object type \<^verbatim>\<open>company\<close>, the pattern \<^verbatim>\<open>contact\<close>
  does not.
\<close>

theorem matches_characterisation_witness:
  "events (subscription_for ''s1'' [JStr ''company'']) = [JStr ''company'']
   \<and> get_prop (change_event ''company.propertyChange'' ''company'' ''42'') ''objectType''
       = JStr ''company''
   \<and> matches (subscription_for ''s1'' [JStr ''company''])
        (change_event ''company.propertyChange'' ''company'' ''42'') = Inr True
   \<and> matches (subscription_for ''s1'' [JStr ''contact''])
        (change_event ''company.propertyChange'' ''company'' ''42'') = Inr False"
  using matches_characterisation[of "subscription_for ''s1'' [JStr ''company'']"
          "change_event ''company.propertyChange'' ''company'' ''42''" "''company''"]
        matches_characterisation[of "subscription_for ''s1'' [JStr ''contact'']"
          "change_event ''company.propertyChange'' ''company'' ''42''" "''company''"]
  by (simp add: subscription_for_def change_event_def toLowerCase_def lower_char_def)



section \<open>Registration\<close>

text \<open>
  Claim C4, as the specification words it, fails: an empty list of patterns is truthy
  and is an array, so line 58 lets it pass and the subscription is created.
\<close>

theorem register_empty_patterns_counterexample:
  "\<not> (spec_register_fails (registration ''http://sink/hook'' []) \<longleftrightarrow>
       fst (post_subscriptions empty_state (registration ''http://sink/hook'' []) ''id-1'' 5)
         = BadRequest)"
  by (simp add: spec_register_fails_def registration_def post_subscriptions_def empty_state_def)

text \<open>
  Claim C4, amended: a registration is answered 400, and changes nothing, if and only if
  \<^verbatim>\<open>url\<close> is missing or otherwise falsy, or \<^verbatim>\<open>events\<close> is missing or not an array (an
  empty array is accepted); otherwise the subscription is created, active and with both
  counters at zero, and its new id is returned with 201.
\<close>

theorem register_validation:
  assumes "\<not> nullish body"
  shows "(status (fst (post_subscriptions st body uuid now)) = Some 400 \<longleftrightarrow>
            \<not> truthy (get_prop body ''url'') \<or> \<not> isArray (get_prop body ''events''))
       \<and> (status (fst (post_subscriptions st body uuid now)) = Some 400 \<longrightarrow>
            snd (post_subscriptions st body uuid now) = st)
       \<and> (truthy (get_prop body ''url'') \<and> isArray (get_prop body ''events'') \<longrightarrow>
            fst (post_subscriptions st body uuid now) = Created uuid
          \<and> status (fst (post_subscriptions st body uuid now)) = Some 201
          \<and> map_of (subscribers (snd (post_subscriptions st body uuid now))) uuid =
              Some \<lparr>sub_id = uuid, url = get_prop body ''url'',
                    events = elems (get_prop body ''events''),
                    secret = get_prop body ''secret'', active = True, createdAt = now,
                    lastNotified = None, successCount = 0, errorCount = 0\<rparr>)"
proof -
  have arr: "isArray v \<Longrightarrow> truthy v" for v by (cases v) auto
  show ?thesis
    using assms arr[of "get_prop body ''events''"]
    by (auto simp: post_subscriptions_def Let_def update_conv')
qed

theorem register_validation_witness:
  "\<not> nullish (registration ''http://sink/hook'' [JStr ''company''])
   \<and> fst (post_subscriptions empty_state
            (registration ''http://sink/hook'' [JStr ''company'']) ''id-1'' 5) = Created ''id-1''
   \<and> status (fst (post_subscriptions empty_state
            (registration ''http://sink/hook'' [JStr ''company'']) ''id-1'' 5)) = Some 201
   \<and> status (fst (post_subscriptions empty_state
            (JObj [(''url'', JStr ''http://sink/hook'')]) ''id-1'' 5)) = Some 400"
  using register_validation[of "registration ''http://sink/hook'' [JStr ''company'']"
          empty_state "''id-1''" 5]
        register_validation[of "JObj [(''url'', JStr ''http://sink/hook'')]"
          empty_state "''id-1''" 5]
  by (simp add: registration_def)

section \<open>One delivery\<close>





text \<open>
  Claim C6: a delivery whose signature can be computed (the secret is absent or a string)
  is counted as a failure if and only if the request gets no response, times out, or is
  answered with a status of 500 or above. Every response with a status below 500 settles
  the one attempt as delivered: the success counter goes up by one and the last-notified
  time is set. A failure leaves both alone and adds one to the error counter.
\<close>

theorem delivery_failure_iff:
  assumes "\<not> createHmac_throws (secret s)"
  shows "(fst (notifySubscriber s now r) = Rejected \<longleftrightarrow>
            r = NetworkError \<or> r = Timeout \<or> (\<exists>st\<ge>500. r = Response st))
       \<and> (\<forall>st<500. r = Response st \<longrightarrow>
            notifySubscriber s now r =
              (Fulfilled, s\<lparr>successCount := successCount s + 1, lastNotified := Some now\<rparr>))
       \<and> (fst (notifySubscriber s now r) = Rejected \<longrightarrow>
            successCount (snd (notifySubscriber s now r)) = successCount s
          \<and> lastNotified (snd (notifySubscriber s now r)) = lastNotified s
          \<and> errorCount (snd (notifySubscriber s now r)) = errorCount s + 1)"
  using assms by (cases r) (auto simp: notifySubscriber_def Let_def validateStatus_def)

theorem delivery_failure_iff_witness:
  "\<not> createHmac_throws (secret (subscription_for ''s1'' [JStr ''*'']))
   \<and> fst (notifySubscriber (subscription_for ''s1'' [JStr ''*'']) 7 (Response 404)) = Fulfilled
   \<and> successCount (snd (notifySubscriber (subscription_for ''s1'' [JStr ''*'']) 7 (Response 404))) = 1
   \<and> fst (notifySubscriber (subscription_for ''s1'' [JStr ''*'']) 7 (Response 503)) = Rejected
   \<and> fst (notifySubscriber (subscription_for ''s1'' [JStr ''*'']) 7 Timeout) = Rejected"
  using delivery_failure_iff[of "subscription_for ''s1'' [JStr ''*'']" 7 "Response 404"]
        delivery_failure_iff[of "subscription_for ''s1'' [JStr ''*'']" 7 "Response 503"]
        delivery_failure_iff[of "subscription_for ''s1'' [JStr ''*'']" 7 "Timeout"]
  by (simp add: subscription_for_def createHmac_throws_def)

section \<open>Fan-out\<close>













section \<open>Deactivation\<close>















section \<open>Replay\<close>

lemma after_publish_eq:
  "after_publish =
     \<lparr>subscribers = [(''s1'', (subscription_for ''s1'' [JStr ''*''])
                                 \<lparr>successCount := 1, lastNotified := Some 1000\<rparr>)],
      redisClient = Some \<lparr>subscriptions_hash = [],
         event_keys = [((1000, ''k1''), 86401000, replay_event)],
         processing_queue = [(1000, ''k1'')]\<rparr>\<rparr>"
  by (simp add: after_publish_def post_webhook_def retaining_state_def replay_event_def
      event_with_id_def Let_def record_event_def matches_def subscription_for_def
      patternTest_def settle_def notifySubscriber_def createHmac_throws_def all_ok_def
      validateStatus_def)

text \<open>
  Claim C3 at a recorded event. Publishing the event \<^verbatim>\<open>evt-1\<close> delivers it to the one
  subscriber and records it. Replaying \<^verbatim>\<open>evt-1\<close> a second later finds the record but does
  not publish it: line 246 hands the request, still a \<^verbatim>\<open>POST /replay/evt-1\<close>, back to the
  application (Express 4), or answers 500 (Express 5). No delivery is made and no delivery
  report is returned. An id that was never recorded, and \<^verbatim>\<open>evt-1\<close> itself once its 24
  hours are over, are answered 404.
\<close>

theorem replay_does_not_publish:
  "fst (post_webhook retaining_state replay_event 1000 ''k1'' all_ok)
     = Processed (JStr ''evt-1'') 1 0
   \<and> fst (snd (post_webhook retaining_state replay_event 1000 ''k1'' all_ok)) = [''s1'']
   \<and> post_replay ReturnsApp after_publish ''evt-1'' 2000
       = Redispatched ''/replay/evt-1'' replay_event
   \<and> post_replay Throws after_publish ''evt-1'' 2000 = Responded ServerError
   \<and> post_replay ReturnsApp after_publish ''evt-2'' 2000 = Responded NotFound
   \<and> post_replay ReturnsApp after_publish ''evt-1'' 86401000 = Responded NotFound"
proof -
  have p: "post_webhook retaining_state replay_event 1000 ''k1'' all_ok =
      (Processed (JStr ''evt-1'') 1 0, [''s1''], after_publish)"
    unfolding after_publish_def
    by (simp add: post_webhook_def retaining_state_def replay_event_def
      event_with_id_def Let_def record_event_def matches_def subscription_for_def
      patternTest_def settle_def notifySubscriber_def createHmac_throws_def all_ok_def
      validateStatus_def)
  have r: "\<not> nullish replay_event" "get_prop replay_event ''eventId'' = JStr ''evt-1''"
    by (simp_all add: replay_event_def event_with_id_def)
  show ?thesis
    by (simp add: p post_replay_def after_publish_eq live_keys_def r)
qed

text \<open>The replay of the recorded event is not answered with the report of a publish call.\<close>

theorem replay_does_not_publish_witness:
  "post_replay ReturnsApp after_publish ''evt-1'' 2000
     \<noteq> Responded (Processed (JStr ''evt-1'') 1 0)
   \<and> post_replay Throws after_publish ''evt-1'' 2000
     \<noteq> Responded (Processed (JStr ''evt-1'') 1 0)"
  using replay_does_not_publish by simp

section \<open>Intake\<close>

text \<open>
  Claim C2 at a delivery with no \<^verbatim>\<open>x-hubspot-signature\<close> header, under the default
  configuration (the code has no debug switch): the intake answers 200, not 401, and
  queues the job.
\<close>

theorem unsigned_webhook_is_queued:
  "signature_header unsigned_request = None
   \<and> handleWebhook default_config [] unsigned_request 1000 =
       (Received (JStr ''evt-1''), [],
        [new_job default_config
           (event_with_id ''evt-1'' ''company.creation'' ''company'' ''42'') 1000])
   \<and> sync_status (fst (handleWebhook default_config [] unsigned_request 1000)) = 200"
  by (simp add: signature_header_def unsigned_request_def handleWebhook_def
        validateWebhookSignature_def queueEventForProcessing_def event_with_id_def)

theorem unsigned_webhook_is_queued_witness:
  "sync_status (fst (handleWebhook default_config [] unsigned_request 1000)) \<noteq> 401
   \<and> length (snd (snd (handleWebhook default_config [] unsigned_request 1000))) = 1"
  using unsigned_webhook_is_queued by simp


section \<open>The worker\<close>

lemma send_effects:
  "snd (sendObjectToDatabox env t object) = []
   \<or> (\<exists>x. truthy object \<and> convertToDataboxFormat env t object = Inr x
        \<and> (snd (sendObjectToDatabox env t object) = [SinkPost t [x]]
           \<or> snd (sendObjectToDatabox env t object) = [SinkPost t [x], ErrorLog]))"
proof (cases "truthy object")
  case False
  then show ?thesis by (simp add: sendObjectToDatabox_def)
next
  case True
  show ?thesis
  proof (cases "convertToDataboxFormat env t object")
    case (Inl e)
    then show ?thesis using True by (simp add: sendObjectToDatabox_def)
  next
    case (Inr x)
    have "snd (sendToDatabox env t [x]) = [SinkPost t [x]]
       \<or> snd (sendToDatabox env t [x]) = [SinkPost t [x], ErrorLog]"
      by (cases "databox env t [x]") (simp_all add: sendToDatabox_def)
    then show ?thesis using True Inr by (simp add: sendObjectToDatabox_def)
  qed
qed

lemma send_falsy: "\<not> truthy object \<Longrightarrow> sendObjectToDatabox env t object = (Inr (), [])"
  by (simp add: sendObjectToDatabox_def)

lemma fetch_effects:
  "\<exists>rest. snd (fetchObjectFromHubSpot env t i) = CrmGet t i # rest \<and> set rest \<subseteq> {WarnLog}"
  by (cases "crm env t i") (simp_all add: fetchObjectFromHubSpot_def)

lemma fetch_value:
  "fst (fetchObjectFromHubSpot env t i) = Inr object \<Longrightarrow> truthy object \<Longrightarrow>
     \<exists>st. crm env t i = CrmResponse st object \<and> ok_status st"
  by (cases "crm env t i") (auto simp: fetchObjectFromHubSpot_def split: if_splits)

text \<open>What \<open>processObjectSync\<close> does on each side of line 284.\<close>

lemma sync_effects:
  "snd (sync_failed eff) = eff @ [ErrorLog, ErrorMetric ''sync_error'' ''process_object'']"
  by (simp add: sync_failed_def)

lemma process_no_fetch:
  assumes "fetch_condition d = Inr False"
  shows "\<exists>tail. snd (processObjectSync env d) =
           snd (sendObjectToDatabox env (objectType d)
                  (JObj [(''id'', objectId d), (''properties'', properties d)])) @ tail
         \<and> set tail \<subseteq> {ErrorLog, ErrorMetric ''sync_error'' ''process_object''}"
proof (cases "sendObjectToDatabox env (objectType d)
                  (JObj [(''id'', objectId d), (''properties'', properties d)])")
  case (Pair r eff)
  show ?thesis
  proof (cases r)
    case (Inl e)
    then show ?thesis using assms Pair by (simp add: processObjectSync_def sync_failed_def)
  next
    case (Inr u)
    then show ?thesis using assms Pair by (simp add: processObjectSync_def)
  qed
qed

lemma process_fetch:
  assumes "fetch_condition d = Inr True"
  shows "(\<exists>tail. snd (processObjectSync env d) =
            snd (fetchObjectFromHubSpot env (objectType d) (objectId d)) @ tail
          \<and> set tail \<subseteq> {ErrorLog, ErrorMetric ''sync_error'' ''process_object''})
       \<or> (\<exists>object tail. fst (fetchObjectFromHubSpot env (objectType d) (objectId d)) = Inr object
          \<and> snd (processObjectSync env d) =
            snd (fetchObjectFromHubSpot env (objectType d) (objectId d))
              @ snd (sendObjectToDatabox env (objectType d) object) @ tail
          \<and> set tail \<subseteq> {ErrorLog, ErrorMetric ''sync_error'' ''process_object''})"
proof (cases "fetchObjectFromHubSpot env (objectType d) (objectId d)")
  case (Pair f eff1)
  show ?thesis
  proof (cases f)
    case (Inl e)
    then show ?thesis using assms Pair by (simp add: processObjectSync_def sync_failed_def)
  next
    case (Inr object)
    obtain r eff2 where s: "sendObjectToDatabox env (objectType d) object = (r, eff2)"
      by (cases "sendObjectToDatabox env (objectType d) object")
    show ?thesis
    proof (cases r)
      case (Inl e)
      then show ?thesis using assms Pair Inr s
        by (simp add: processObjectSync_def sync_failed_def)
    next
      case (Inr u)
      then show ?thesis using assms Pair \<open>f = Inr object\<close> s
        by (simp add: processObjectSync_def)
    qed
  qed
qed

lemma sinkpost_in_send:
  assumes "SinkPost t' p \<in> set (snd (sendObjectToDatabox env t object))"
  shows "truthy object \<and> t' = t \<and> (\<exists>x. convertToDataboxFormat env t object = Inr x \<and> p = [x])"
proof -
  from send_effects[of env t object] assms
  obtain x where x: "truthy object" "convertToDataboxFormat env t object = Inr x"
    "snd (sendObjectToDatabox env t object) = [SinkPost t [x]]
     \<or> snd (sendObjectToDatabox env t object) = [SinkPost t [x], ErrorLog]"
    by fastforce
  from x(3) assms have "t' = t \<and> p = [x]" by auto
  with x(1,2) show ?thesis by simp
qed

lemma crmget_notin_send: "CrmGet t' i \<notin> set (snd (sendObjectToDatabox env t object))"
  using send_effects[of env t object] by auto

lemma tail_plain:
  assumes "set tail \<subseteq> {ErrorLog, ErrorMetric ''sync_error'' ''process_object''}"
  shows "CrmGet t i \<notin> set tail" and "SinkPost t p \<notin> set tail"
  using assms by auto

lemma fetch_condition_of:
  "includes_call (eventType d) ''creation'' = Inr c \<Longrightarrow>
     fetch_condition d = Inr (c \<or> \<not> truthy (properties d))"
  by (simp add: fetch_condition_def)

lemma no_fetch_facts:
  assumes "fetch_condition d = Inr False"
  shows "CrmGet t i \<notin> set (snd (processObjectSync env d))"
    and "SinkPost t p \<in> set (snd (processObjectSync env d)) \<Longrightarrow>
           t = objectType d \<and>
           (\<exists>x. convertToDataboxFormat env (objectType d)
                   (JObj [(''id'', objectId d), (''properties'', properties d)]) = Inr x \<and> p = [x])"
proof -
  obtain tail where e: "snd (processObjectSync env d) =
           snd (sendObjectToDatabox env (objectType d)
                  (JObj [(''id'', objectId d), (''properties'', properties d)])) @ tail"
      and tail: "set tail \<subseteq> {ErrorLog, ErrorMetric ''sync_error'' ''process_object''}"
    using process_no_fetch[OF assms] by blast
  show "CrmGet t i \<notin> set (snd (processObjectSync env d))"
    unfolding e using crmget_notin_send tail_plain(1)[OF tail] by simp
  assume "SinkPost t p \<in> set (snd (processObjectSync env d))"
  then have "SinkPost t p \<in> set (snd (sendObjectToDatabox env (objectType d)
                  (JObj [(''id'', objectId d), (''properties'', properties d)])))"
    unfolding e using tail_plain(2)[OF tail] by simp
  from sinkpost_in_send[OF this]
  show "t = objectType d \<and>
           (\<exists>x. convertToDataboxFormat env (objectType d)
                   (JObj [(''id'', objectId d), (''properties'', properties d)]) = Inr x \<and> p = [x])"
    by simp
qed

lemma fetch_facts:
  assumes "fetch_condition d = Inr True"
  shows "\<exists>rest. snd (processObjectSync env d) = CrmGet (objectType d) (objectId d) # rest
     \<and> (\<forall>t p. SinkPost t p \<in> set rest \<longrightarrow>
           t = objectType d \<and>
           (\<exists>st object x. crm env (objectType d) (objectId d) = CrmResponse st object
              \<and> ok_status st
              \<and> convertToDataboxFormat env (objectType d) object = Inr x \<and> p = [x]))"
proof -
  obtain rest0 where f: "snd (fetchObjectFromHubSpot env (objectType d) (objectId d)) =
      CrmGet (objectType d) (objectId d) # rest0" and r0: "set rest0 \<subseteq> {WarnLog}"
    using fetch_effects by blast
  from process_fetch[OF assms, of env] show ?thesis
  proof (elim disjE exE conjE)
    fix tail
    assume e: "snd (processObjectSync env d) =
            snd (fetchObjectFromHubSpot env (objectType d) (objectId d)) @ tail"
      and tail: "set tail \<subseteq> {ErrorLog, ErrorMetric ''sync_error'' ''process_object''}"
    have "\<forall>t p. SinkPost t p \<notin> set (rest0 @ tail)"
      using r0 tail by auto
    then show ?thesis unfolding e f by simp
  next
    fix object tail
    assume v: "fst (fetchObjectFromHubSpot env (objectType d) (objectId d)) = Inr object"
      and e: "snd (processObjectSync env d) =
            snd (fetchObjectFromHubSpot env (objectType d) (objectId d))
              @ snd (sendObjectToDatabox env (objectType d) object) @ tail"
      and tail: "set tail \<subseteq> {ErrorLog, ErrorMetric ''sync_error'' ''process_object''}"
    have "t = objectType d \<and>
           (\<exists>st object x. crm env (objectType d) (objectId d) = CrmResponse st object
              \<and> ok_status st
              \<and> convertToDataboxFormat env (objectType d) object = Inr x \<and> p = [x])"
      if "SinkPost t p \<in> set (rest0 @ snd (sendObjectToDatabox env (objectType d) object) @ tail)"
      for t p
    proof -
      from that r0 tail
      have "SinkPost t p \<in> set (snd (sendObjectToDatabox env (objectType d) object))"
        by auto
      from sinkpost_in_send[OF this] obtain x where x: "truthy object" "t = objectType d"
        "convertToDataboxFormat env (objectType d) object = Inr x" "p = [x]" by blast
      from fetch_value[OF v x(1)] obtain st where
        "crm env (objectType d) (objectId d) = CrmResponse st object" "ok_status st" by blast
      with x show ?thesis by blast
    qed
    then show ?thesis unfolding e f by simp
  qed
qed


text \<open>
  Claim C9, as the specification words it, fails: a \<^verbatim>\<open>company.propertyChange\<close> job that
  carries one of the three properties of its company is pushed from what it carries, and
  the CRM is not asked.
\<close>

theorem partial_properties_counterexample:
  "carries_partial crm_company change_job
   \<and> CrmGet (objectType change_job) (objectId change_job)
       \<notin> set (snd (processObjectSync
                    (sample_env (CrmResponse 200 crm_company) (Response 200)) change_job))"
  by (simp add: carries_partial_def crm_company_def change_job_def processObjectSync_def
       fetch_condition_def startsWith_def sendObjectToDatabox_def sendToDatabox_def
       sample_env_def ok_status_def)

text \<open>
  Claim C9, amended: for a job whose event type is a string (or an array), the worker
  fetches the object from the CRM by object type and id if and only if the event type
  contains \<^verbatim>\<open>creation\<close> or the job carries no properties. When it fetches, the fetch is
  the first thing it does and whatever it pushes is the conversion of the fetched object;
  when it does not, whatever it pushes is the conversion of the carried properties, be
  they partial or not.
\<close>

theorem fetch_iff_creation_or_no_properties:
  assumes "includes_call (eventType d) ''creation'' = Inr c"
  shows "(CrmGet (objectType d) (objectId d) \<in> set (snd (processObjectSync env d))
            \<longleftrightarrow> c \<or> \<not> truthy (properties d))
       \<and> (c \<or> \<not> truthy (properties d) \<longrightarrow>
            (\<exists>rest. snd (processObjectSync env d) = CrmGet (objectType d) (objectId d) # rest
               \<and> (\<forall>t p. SinkPost t p \<in> set rest \<longrightarrow>
                     t = objectType d \<and>
                     (\<exists>st object x. crm env (objectType d) (objectId d) = CrmResponse st object
                        \<and> ok_status st
                        \<and> convertToDataboxFormat env (objectType d) object = Inr x
                        \<and> p = [x]))))
       \<and> (\<not> c \<and> truthy (properties d) \<longrightarrow>
            (\<forall>t i. CrmGet t i \<notin> set (snd (processObjectSync env d)))
            \<and> (\<forall>t p. SinkPost t p \<in> set (snd (processObjectSync env d)) \<longrightarrow>
                  t = objectType d \<and>
                  (\<exists>x. convertToDataboxFormat env (objectType d)
                          (JObj [(''id'', objectId d), (''properties'', properties d)]) = Inr x
                       \<and> p = [x])))"
proof (cases "c \<or> \<not> truthy (properties d)")
  case True
  then have fc: "fetch_condition d = Inr True"
    using fetch_condition_of[OF assms] by simp
  from fetch_facts[OF fc, of env] obtain rest where
    r: "snd (processObjectSync env d) = CrmGet (objectType d) (objectId d) # rest
     \<and> (\<forall>t p. SinkPost t p \<in> set rest \<longrightarrow>
           t = objectType d \<and>
           (\<exists>st object x. crm env (objectType d) (objectId d) = CrmResponse st object
              \<and> ok_status st
              \<and> convertToDataboxFormat env (objectType d) object = Inr x \<and> p = [x]))"
    by blast
  then have "CrmGet (objectType d) (objectId d) \<in> set (snd (processObjectSync env d))" by simp
  with True r show ?thesis by blast
next
  case False
  then have fc: "fetch_condition d = Inr False"
    using fetch_condition_of[OF assms] by simp
  from False no_fetch_facts[OF fc, of _ _ env] show ?thesis by blast
qed

theorem fetch_iff_creation_or_no_properties_witness:
  "includes_call (eventType creation_job) ''creation'' = Inr True
   \<and> includes_call (eventType change_job) ''creation'' = Inr False
   \<and> CrmGet (JStr ''companies'') (JStr ''42'')
       \<in> set (snd (processObjectSync
                    (sample_env (CrmResponse 200 crm_company) (Response 200)) creation_job))
   \<and> CrmGet (JStr ''companies'') (JStr ''42'')
       \<notin> set (snd (processObjectSync
                    (sample_env (CrmResponse 200 crm_company) (Response 200)) change_job))"
proof -
  have a: "includes_call (eventType creation_job) ''creation'' = Inr True"
    by (simp add: creation_job_def startsWith_def)
  have b: "includes_call (eventType change_job) ''creation'' = Inr False"
    by (simp add: change_job_def startsWith_def)
  have c: "objectType creation_job = JStr ''companies''" "objectId creation_job = JStr ''42''"
    "objectType change_job = JStr ''companies''" "objectId change_job = JStr ''42''"
    "truthy (properties change_job)"
    by (simp_all add: creation_job_def change_job_def)
  show ?thesis
    using fetch_iff_creation_or_no_properties[OF a,
            of "sample_env (CrmResponse 200 crm_company) (Response 200)"]
          fetch_iff_creation_or_no_properties[OF b,
            of "sample_env (CrmResponse 200 crm_company) (Response 200)"]
    by (simp add: a b c)
qed

section \<open>The queue\<close>

lemma claim_due:
  "jstate j = Pending v \<Longrightarrow> v \<le> now \<Longrightarrow> claim now j = Some (j\<lparr>jstate := Processing\<rparr>)"
  by (simp add: claim_def)

lemma claim_None:
  "claim now j = None \<longleftrightarrow> (\<forall>v. jstate j = Pending v \<longrightarrow> now < v)"
  by (cases "jstate j") (auto simp: claim_def)

lemma claim_Some_iff:
  "claim now j \<noteq> None \<longleftrightarrow> (\<exists>v. jstate j = Pending v \<and> v \<le> now)"
  by (cases "jstate j") (auto simp: claim_def)

lemma work_idle: "claim now j = None \<Longrightarrow> work env now j = (j, [])"
  by (simp add: work_def)

lemma work_fulfilled:
  assumes "claim now j \<noteq> None" and "fst (processObjectSync env (jdata j)) = Fulfilled"
  shows "work env now j = (j\<lparr>jstate := Done\<rparr>, snd (processObjectSync env (jdata j)))"
proof -
  from assms(1) obtain v where v: "jstate j = Pending v" "v \<le> now"
    using claim_Some_iff by blast
  obtain r eff where p: "processObjectSync env (jdata j) = (r, eff)"
    by (cases "processObjectSync env (jdata j)")
  with assms(2) have r: "r = Fulfilled" by simp
  show ?thesis
    by (simp add: work_def claim_due[OF v] p r finish_def)
qed

lemma work_rejected:
  assumes "claim now j \<noteq> None" and "fst (processObjectSync env (jdata j)) = Rejected"
  shows "work env now j =
     (if attemptsMade j + 1 < attempts (opts j)
      then (j\<lparr>attemptsMade := attemptsMade j + 1,
              jstate := Pending (now + backoff_ms (opts j) (attemptsMade j + 1))\<rparr>,
            snd (processObjectSync env (jdata j)))
      else (j\<lparr>attemptsMade := attemptsMade j + 1, jstate := Failed\<rparr>,
            snd (processObjectSync env (jdata j)) @ on_failed j))"
proof -
  from assms(1) obtain v where v: "jstate j = Pending v" "v \<le> now"
    using claim_Some_iff by blast
  obtain r eff where p: "processObjectSync env (jdata j) = (r, eff)"
    by (cases "processObjectSync env (jdata j)")
  with assms(2) have r: "r = Rejected" by simp
  show ?thesis
    by (simp add: work_def claim_due[OF v] p r finish_def Let_def on_failed_def)
qed

lemma settled_cases: "r = Fulfilled \<or> r = Rejected" for r :: settled
  by (cases r) simp_all

lemma work_inv:
  assumes "job_inv opt j"
  shows "job_inv opt (fst (work env now j))"
proof (cases "claim now j = None")
  case True
  then show ?thesis using assms by (simp add: work_idle)
next
  case False
  then obtain v where v: "jstate j = Pending v" using claim_Some_iff by blast
  from settled_cases[of "fst (processObjectSync env (jdata j))"] show ?thesis
  proof
    assume "fst (processObjectSync env (jdata j)) = Fulfilled"
    from work_fulfilled[OF False this] assms v show ?thesis
      by (simp add: job_inv_def)
  next
    assume "fst (processObjectSync env (jdata j)) = Rejected"
    from work_rejected[OF False this] assms v show ?thesis
      by (simp add: job_inv_def)
  qed
qed

lemma work_jdata: "jdata (fst (work env now j)) = jdata j"
proof (cases "claim now j = None")
  case True
  then show ?thesis by (simp add: work_idle)
next
  case False
  from settled_cases[of "fst (processObjectSync env (jdata j))"] show ?thesis
  proof
    assume "fst (processObjectSync env (jdata j)) = Fulfilled"
    from work_fulfilled[OF False this] show ?thesis by simp
  next
    assume "fst (processObjectSync env (jdata j)) = Rejected"
    from work_rejected[OF False this] show ?thesis by simp
  qed
qed

lemma work_failed_surfaced:
  assumes "jstate j \<noteq> Failed" and "jstate (fst (work env now j)) = Failed"
  shows "ErrorMetric ''job_failure'' (job_name j) \<in> set (snd (work env now j))
       \<and> ErrorLog \<in> set (snd (work env now j))"
proof (cases "claim now j = None")
  case True
  then show ?thesis using assms by (simp add: work_idle)
next
  case False
  from settled_cases[of "fst (processObjectSync env (jdata j))"] show ?thesis
  proof
    assume "fst (processObjectSync env (jdata j)) = Fulfilled"
    from work_fulfilled[OF False this] assms(2) show ?thesis by simp
  next
    assume "fst (processObjectSync env (jdata j)) = Rejected"
    from work_rejected[OF False this] assms(2) show ?thesis
      by (simp add: on_failed_def split: if_splits)
  qed
qed

lemma run_worker_Cons:
  "run_worker ((env, now) # polls) j =
     (fst (run_worker polls (fst (work env now j))),
      snd (work env now j) @ snd (run_worker polls (fst (work env now j))))"
  by (simp split: prod.splits)

lemma run_worker_inv: "job_inv opt j \<Longrightarrow> job_inv opt (fst (run_worker polls j))"
proof (induction polls arbitrary: j)
  case Nil
  then show ?case by simp
next
  case (Cons p polls)
  obtain env now where p: "p = (env, now)" by (cases p)
  have "job_inv opt (fst (work env now j))" using Cons.prems by (rule work_inv)
  then have "job_inv opt (fst (run_worker polls (fst (work env now j))))" by (rule Cons.IH)
  then show ?case unfolding p by (simp only: run_worker_Cons fst_conv)
qed

lemma run_worker_terminal:
  "jstate j = Failed \<or> jstate j = Done \<Longrightarrow> run_worker polls j = (j, [])"
proof (induction polls)
  case Nil
  then show ?case by simp
next
  case (Cons p polls)
  obtain env now where p: "p = (env, now)" by (cases p)
  have "claim now j = None" using Cons.prems by (auto simp: claim_None)
  then have w: "work env now j = (j, [])" by (rule work_idle)
  show ?case unfolding p using Cons.IH[OF Cons.prems] by (simp only: run_worker_Cons w) simp
qed

lemma run_worker_failed_surfaced:
  assumes "job_inv opt j" and "jstate j \<noteq> Failed"
    and "jstate (fst (run_worker polls j)) = Failed"
  shows "ErrorMetric ''job_failure'' ''sync-object'' \<in> set (snd (run_worker polls j))
       \<and> ErrorLog \<in> set (snd (run_worker polls j))"
  using assms
proof (induction polls arbitrary: j)
  case Nil
  then show ?case by simp
next
  case (Cons p polls)
  obtain env now where p: "p = (env, now)" by (cases p)
  let ?j = "fst (work env now j)"
  have inv: "job_inv opt ?j" using Cons.prems(1) by (rule work_inv)
  have nm: "job_name j = ''sync-object''" using Cons.prems(1) by (simp add: job_inv_def)
  have fin: "jstate (fst (run_worker polls ?j)) = Failed"
    using Cons.prems(3) unfolding p by (simp only: run_worker_Cons fst_conv)
  show ?case
  proof (cases "jstate ?j = Failed")
    case True
    from work_failed_surfaced[OF Cons.prems(2) True]
    show ?thesis unfolding p by (simp only: run_worker_Cons snd_conv set_append Un_iff nm) simp
  next
    case False
    from Cons.IH[OF inv False fin]
    show ?thesis unfolding p by (simp only: run_worker_Cons snd_conv set_append Un_iff) simp
  qed
qed

lemma new_job_inv:
  "0 < maxRetries cfg \<Longrightarrow> job_inv (opts (new_job cfg event t0)) (new_job cfg event t0)"
  by (simp add: job_inv_def new_job_def)

lemma rejected_exhaust:
  assumes "rejected_run polls j" and "polls \<noteq> []"
    and "attemptsMade j + int (length polls) = attempts (opts j)"
  shows "jstate (fst (run_worker polls j)) = Failed
       \<and> attemptsMade (fst (run_worker polls j)) = attempts (opts j)"
  using assms
proof (induction polls arbitrary: j)
  case Nil
  then show ?case by simp
next
  case (Cons p polls)
  obtain env now where p: "p = (env, now)" by (cases p)
  from Cons.prems(1) have c: "claim now j \<noteq> None"
    and r: "fst (processObjectSync env (jdata j)) = Rejected"
    and rest: "rejected_run polls (fst (work env now j))"
    unfolding p by simp_all
  note w = work_rejected[OF c r]
  show ?case
  proof (cases "polls = []")
    case True
    with Cons.prems(3) have "\<not> attemptsMade j + 1 < attempts (opts j)" by simp
    with w have "work env now j =
        (j\<lparr>attemptsMade := attemptsMade j + 1, jstate := Failed\<rparr>,
            snd (processObjectSync env (jdata j)) @ on_failed j)" by simp
    then show ?thesis unfolding p True using Cons.prems(3) True by simp
  next
    case False
    with Cons.prems(3) have lt: "attemptsMade j + 1 < attempts (opts j)"
      by (cases polls) simp_all
    with w have w': "work env now j =
        (j\<lparr>attemptsMade := attemptsMade j + 1,
              jstate := Pending (now + backoff_ms (opts j) (attemptsMade j + 1))\<rparr>,
            snd (processObjectSync env (jdata j)))" by simp
    have "attemptsMade (fst (work env now j)) + int (length polls) = attempts (opts (fst (work env now j)))"
      using Cons.prems(3) by (simp add: w')
    from Cons.IH[OF rest False this]
    show ?thesis unfolding p by (simp only: run_worker_Cons fst_conv) (simp add: w')
  qed
qed

lemma rejected_backoff:
  assumes "rejected_run polls j" and "polls \<noteq> []"
    and "attemptsMade j + int (length polls) < attempts (opts j)"
  shows "jstate (fst (run_worker polls j)) =
           Pending (snd (last polls) + backoff_ms (opts j) (attemptsMade j + int (length polls)))
       \<and> attemptsMade (fst (run_worker polls j)) = attemptsMade j + int (length polls)"
  using assms
proof (induction polls arbitrary: j)
  case Nil
  then show ?case by simp
next
  case (Cons p polls)
  obtain env now where p: "p = (env, now)" by (cases p)
  from Cons.prems(1) have c: "claim now j \<noteq> None"
    and r: "fst (processObjectSync env (jdata j)) = Rejected"
    and rest: "rejected_run polls (fst (work env now j))"
    unfolding p by simp_all
  from Cons.prems(3) have lt: "attemptsMade j + 1 < attempts (opts j)" by simp
  with work_rejected[OF c r] have w': "work env now j =
        (j\<lparr>attemptsMade := attemptsMade j + 1,
              jstate := Pending (now + backoff_ms (opts j) (attemptsMade j + 1))\<rparr>,
            snd (processObjectSync env (jdata j)))" by simp
  show ?case
  proof (cases "polls = []")
    case True
    then show ?thesis unfolding p by (simp add: w')
  next
    case False
    have "attemptsMade (fst (work env now j)) + int (length polls) < attempts (opts (fst (work env now j)))"
      using Cons.prems(3) by (simp add: w')
    from Cons.IH[OF rest False this] False
    show ?thesis unfolding p by (simp only: run_worker_Cons fst_conv) (simp add: w' add.assoc)
  qed
qed

text \<open>
  Claim C8: a job is queued with the configured maximum of attempts (3 when
  \<^verbatim>\<open>MAX_RETRIES\<close> is not set) and exponential backoff with base delay 2000 ms. For a
  positive maximum, whatever the polls of the workers, the attempt count of the job never
  exceeds the maximum. When the job has failed the count is the maximum, the failure is
  logged and counted in the error metric by the \<^verbatim>\<open>failed\<close> listener, and no later poll
  runs the job again. A job rejected at as many polls as the maximum has failed; rejected
  at fewer, it is pending again, visible after the base delay doubled once per earlier
  retry.
\<close>

theorem retries_are_bounded:
  assumes "0 < maxRetries cfg"
  shows "attempts (opts (new_job cfg event t0)) = maxRetries cfg
       \<and> backoff_kind (opts (new_job cfg event t0)) = Exponential
       \<and> backoff_delay (opts (new_job cfg event t0)) = 2000
       \<and> maxRetries (load_config pd None) = 3
       \<and> 0 \<le> attemptsMade (fst (run_worker polls (new_job cfg event t0)))
       \<and> attemptsMade (fst (run_worker polls (new_job cfg event t0))) \<le> maxRetries cfg
       \<and> (jstate (fst (run_worker polls (new_job cfg event t0))) = Failed \<longrightarrow>
            attemptsMade (fst (run_worker polls (new_job cfg event t0))) = maxRetries cfg
          \<and> ErrorMetric ''job_failure'' ''sync-object''
               \<in> set (snd (run_worker polls (new_job cfg event t0)))
          \<and> ErrorLog \<in> set (snd (run_worker polls (new_job cfg event t0)))
          \<and> (\<forall>later. run_worker later (fst (run_worker polls (new_job cfg event t0)))
                 = (fst (run_worker polls (new_job cfg event t0)), [])))
       \<and> (rejected_run polls (new_job cfg event t0) \<and> int (length polls) = maxRetries cfg \<longrightarrow>
            jstate (fst (run_worker polls (new_job cfg event t0))) = Failed)
       \<and> (rejected_run polls (new_job cfg event t0) \<and> polls \<noteq> []
            \<and> int (length polls) < maxRetries cfg \<longrightarrow>
            jstate (fst (run_worker polls (new_job cfg event t0)))
              = Pending (snd (last polls) + 2000 * 2 ^ (length polls - 1))
          \<and> attemptsMade (fst (run_worker polls (new_job cfg event t0))) = int (length polls))"
proof -
  let ?start = "new_job cfg event t0"
  let ?final = "fst (run_worker polls ?start)"
  have o: "opts ?start = \<lparr>delay = processingDelay cfg, attempts = maxRetries cfg,
               backoff_kind = Exponential, backoff_delay = 2000\<rparr>"
    and a0: "attemptsMade ?start = 0" and s0: "jstate ?start \<noteq> Failed"
    by (simp_all add: new_job_def)
  have inv0: "job_inv (opts ?start) ?start" using assms by (rule new_job_inv)
  then have inv: "job_inv (opts ?start) ?final" by (rule run_worker_inv)
  have 1: "attempts (opts ?start) = maxRetries cfg \<and> backoff_kind (opts ?start) = Exponential
       \<and> backoff_delay (opts ?start) = 2000" by (simp add: o)
  have 2: "maxRetries (load_config pd None) = 3" by (simp add: load_config_def env_int_def)
  have 3: "0 \<le> attemptsMade ?final \<and> attemptsMade ?final \<le> maxRetries cfg"
    using inv by (simp add: job_inv_def o split: if_splits)
  have 4: "attemptsMade ?final = maxRetries cfg
          \<and> ErrorMetric ''job_failure'' ''sync-object'' \<in> set (snd (run_worker polls ?start))
          \<and> ErrorLog \<in> set (snd (run_worker polls ?start))
          \<and> (\<forall>later. run_worker later ?final = (?final, []))" if f: "jstate ?final = Failed"
  proof -
    have "attemptsMade ?final = maxRetries cfg" using inv f by (simp add: job_inv_def o)
    moreover note run_worker_failed_surfaced[OF inv0 s0 f]
    moreover have "\<forall>later. run_worker later ?final = (?final, [])"
      using f run_worker_terminal by blast
    ultimately show ?thesis by blast
  qed
  have 5: "jstate ?final = Failed" if "rejected_run polls ?start" "int (length polls) = maxRetries cfg"
  proof -
    from that(2) assms have ne: "polls \<noteq> []" by auto
    have "attemptsMade ?start + int (length polls) = attempts (opts ?start)"
      using that(2) by (simp add: o a0)
    from rejected_exhaust[OF that(1) ne this] show ?thesis by simp
  qed
  have 6: "jstate ?final = Pending (snd (last polls) + 2000 * 2 ^ (length polls - 1))
          \<and> attemptsMade ?final = int (length polls)"
    if "rejected_run polls ?start" "polls \<noteq> []" "int (length polls) < maxRetries cfg"
  proof -
    have "attemptsMade ?start + int (length polls) < attempts (opts ?start)"
      using that(3) by (simp add: o a0)
    from rejected_backoff[OF that(1,2) this]
    have "jstate ?final = Pending (snd (last polls) + backoff_ms (opts ?start) (int (length polls)))
       \<and> attemptsMade ?final = int (length polls)" by (simp add: a0)
    moreover have "nat (int (length polls) - 1) = length polls - 1" by simp
    ultimately show ?thesis by (simp add: backoff_ms_def o)
  qed
  from 1 2 3 4 5 6 show ?thesis by blast
qed

lemma sink_down_rejects:
  "processObjectSync sink_down (jdata (new_job default_config creation_event 1000)) =
     (Rejected,
      [CrmGet (JStr ''companies'') (JStr ''42''),
       SinkPost (JStr ''companies'') [JObj [(''objectId'', JStr ''42'')]],
       ErrorLog, ErrorLog, ErrorMetric ''sync_error'' ''process_object''])"
  by (simp add: sink_down_def sample_env_def new_job_def creation_event_def event_with_id_def
       processObjectSync_def fetch_condition_def startsWith_def fetchObjectFromHubSpot_def
       ok_status_def crm_company_def sendObjectToDatabox_def sendToDatabox_def sync_failed_def)

lemma default_config_eq: "default_config = \<lparr>processingDelay = 1000, maxRetries = 3\<rparr>"
  by (simp add: default_config_def load_config_def env_int_def)

lemma three_rejections:
  "rejected_run [(sink_down, 2000), (sink_down, 4000), (sink_down, 10000)]
     (new_job default_config creation_event 1000)"
proof -
  let ?ja = "new_job default_config creation_event 1000"
  have s0: "jstate ?ja = Pending 2000" "attemptsMade ?ja = 0"
    "opts ?ja = \<lparr>delay = 1000, attempts = 3, backoff_kind = Exponential, backoff_delay = 2000\<rparr>"
    by (simp_all add: new_job_def default_config_eq)
  have r: "fst (processObjectSync sink_down (jdata ?ja)) = Rejected"
    by (simp add: sink_down_rejects)
  have c0: "claim 2000 ?ja \<noteq> None" by (simp add: claim_def s0)
  have w1: "work sink_down 2000 ?ja =
      (?ja\<lparr>attemptsMade := 1, jstate := Pending 4000\<rparr>, snd (processObjectSync sink_down (jdata ?ja)))"
    using work_rejected[OF c0 r] by (simp add: s0 backoff_ms_def)
  let ?jb = "?ja\<lparr>attemptsMade := 1, jstate := Pending 4000\<rparr>"
  have r1: "fst (processObjectSync sink_down (jdata ?jb)) = Rejected" using r by simp
  have c1: "claim 4000 ?jb \<noteq> None" by (simp add: claim_def)
  have w2: "work sink_down 4000 ?jb =
      (?ja\<lparr>attemptsMade := 2, jstate := Pending 8000\<rparr>, snd (processObjectSync sink_down (jdata ?jb)))"
    using work_rejected[OF c1 r1] by (simp add: s0 backoff_ms_def)
  let ?jc = "?ja\<lparr>attemptsMade := 2, jstate := Pending 8000\<rparr>"
  have r2: "fst (processObjectSync sink_down (jdata ?jc)) = Rejected" using r by simp
  have c2: "claim 10000 ?jc \<noteq> None" by (simp add: claim_def)
  show ?thesis
    by (simp only: rejected_run.simps c0 r w1 fst_conv c1 r1 w2 c2 r2) simp
qed

theorem retries_are_bounded_witness:
  "maxRetries default_config = 3
   \<and> rejected_run [(sink_down, 2000), (sink_down, 4000), (sink_down, 10000)]
        (new_job default_config creation_event 1000)
   \<and> jstate (fst (run_worker [(sink_down, 2000), (sink_down, 4000), (sink_down, 10000)]
        (new_job default_config creation_event 1000))) = Failed
   \<and> attemptsMade (fst (run_worker [(sink_down, 2000), (sink_down, 4000), (sink_down, 10000)]
        (new_job default_config creation_event 1000))) = 3
   \<and> ErrorMetric ''job_failure'' ''sync-object''
        \<in> set (snd (run_worker [(sink_down, 2000), (sink_down, 4000), (sink_down, 10000)]
              (new_job default_config creation_event 1000)))"
proof -
  have m: "0 < maxRetries default_config" "maxRetries default_config = 3"
    by (simp_all add: default_config_eq)
  show ?thesis
    using retries_are_bounded[OF m(1), where event = creation_event and ?t0.0 = 1000
            and polls = "[(sink_down, 2000), (sink_down, 4000), (sink_down, 10000)]"]
          three_rejections
    by (simp add: m(2))
qed


text \<open>
  Claim C10: when the worker fetches the object of a job and the CRM answers 404, the
  handler ends normally having made the one CRM request, logged a warning and pushed
  nothing to the sink; the queue marks the job Done, and no later poll runs it again.
\<close>

theorem not_found_completes_without_push:
  assumes "fetch_condition d = Inr True"
    and "crm env (objectType d) (objectId d) = CrmResponse 404 b"
  shows "processObjectSync env d = (Fulfilled, [CrmGet (objectType d) (objectId d), WarnLog])
       \<and> (jdata j = d \<and> claim now j \<noteq> None \<longrightarrow>
            work env now j = (j\<lparr>jstate := Done\<rparr>, [CrmGet (objectType d) (objectId d), WarnLog])
          \<and> (\<forall>later. run_worker later (j\<lparr>jstate := Done\<rparr>) = (j\<lparr>jstate := Done\<rparr>, [])))"
proof -
  have f: "fetchObjectFromHubSpot env (objectType d) (objectId d) =
      (Inr JNull, [CrmGet (objectType d) (objectId d), WarnLog])"
    by (simp add: fetchObjectFromHubSpot_def assms(2) ok_status_def)
  have p: "processObjectSync env d = (Fulfilled, [CrmGet (objectType d) (objectId d), WarnLog])"
    by (simp add: processObjectSync_def assms(1) f send_falsy)
  have "work env now j = (j\<lparr>jstate := Done\<rparr>, [CrmGet (objectType d) (objectId d), WarnLog])
          \<and> (\<forall>later. run_worker later (j\<lparr>jstate := Done\<rparr>) = (j\<lparr>jstate := Done\<rparr>, []))"
    if "jdata j = d" "claim now j \<noteq> None"
  proof -
    have "fst (processObjectSync env (jdata j)) = Fulfilled" using that(1) p by simp
    from work_fulfilled[OF that(2) this]
    have "work env now j = (j\<lparr>jstate := Done\<rparr>, [CrmGet (objectType d) (objectId d), WarnLog])"
      using that(1) p by simp
    moreover have "\<forall>later. run_worker later (j\<lparr>jstate := Done\<rparr>) = (j\<lparr>jstate := Done\<rparr>, [])"
      using run_worker_terminal[of "j\<lparr>jstate := Done\<rparr>"] by simp
    ultimately show ?thesis by blast
  qed
  with p show ?thesis by blast
qed

theorem not_found_completes_without_push_witness:
  "fetch_condition creation_job = Inr True
   \<and> processObjectSync (sample_env (CrmResponse 404 JNull) (Response 200)) creation_job
       = (Fulfilled, [CrmGet (JStr ''companies'') (JStr ''42''), WarnLog])
   \<and> jstate (fst (work (sample_env (CrmResponse 404 JNull) (Response 200)) 2000
                     (pending_job creation_job))) = Done
   \<and> snd (work (sample_env (CrmResponse 404 JNull) (Response 200)) 2000
             (pending_job creation_job)) = [CrmGet (JStr ''companies'') (JStr ''42''), WarnLog]"
proof -
  have a: "fetch_condition creation_job = Inr True"
    by (simp add: fetch_condition_def creation_job_def startsWith_def)
  have b: "crm (sample_env (CrmResponse 404 JNull) (Response 200))
             (objectType creation_job) (objectId creation_job) = CrmResponse 404 JNull"
    by (simp add: sample_env_def)
  have c: "jdata (pending_job creation_job) = creation_job"
    "claim 2000 (pending_job creation_job) \<noteq> None"
    "objectType creation_job = JStr ''companies''" "objectId creation_job = JStr ''42''"
    by (simp_all add: pending_job_def claim_def creation_job_def)
  show ?thesis
    using not_found_completes_without_push[OF a b, of "pending_job creation_job" 2000]
    by (simp add: a c)
qed

end
